theory Spec2Isabelle
  imports Complex_Main
begin

section \<open>JavaScript strings\<close>

text \<open>
  Strings are \<^typ>\<open>string\<close>, read as ASCII text: \<open>toLowerCase\<close> folds the letters
  \<open>A\<close>..\<open>Z\<close> and \<open>trim\<close> removes the ASCII white space characters. A value that may
  be \<open>null\<close> or \<open>undefined\<close> is an \<open>option\<close>, \<open>None\<close> standing for both.
\<close>

definition toLowerCase :: "string \<Rightarrow> string" where
  "toLowerCase s =
     map (\<lambda>c. if 65 \<le> (of_char c :: nat) \<and> (of_char c :: nat) \<le> 90
              then char_of ((of_char c :: nat) + 32) else c) s"

text \<open>\<open>s.startsWith(p)\<close>.\<close>

fun startsWith :: "string \<Rightarrow> string \<Rightarrow> bool" where
  "startsWith s [] = True"
| "startsWith [] (p # ps) = False"
| "startsWith (c # cs) (p # ps) = (c = p \<and> startsWith cs ps)"

text \<open>\<open>s.includes(sub)\<close>: \<open>sub\<close> occurs in \<open>s\<close> as a contiguous run.\<close>

fun includesStr :: "string \<Rightarrow> string \<Rightarrow> bool" where
  "includesStr [] sub = (sub = [])"
| "includesStr (c # cs) sub = (startsWith (c # cs) sub \<or> includesStr cs sub)"

definition isWhiteSpace :: "char \<Rightarrow> bool" where
  "isWhiteSpace c = ((of_char c :: nat) \<in> {9, 10, 11, 12, 13, 32})"

definition trim :: "string \<Rightarrow> string" where
  "trim s = rev (dropWhile isWhiteSpace (rev (dropWhile isWhiteSpace s)))"

text \<open>
  \<open>s.replace(/^p/, '')\<close> for a literal prefix \<open>p\<close>: the prefix is removed when it is
  there, and the string is returned as it is otherwise.
\<close>

definition replacePrefix :: "string \<Rightarrow> string \<Rightarrow> string" where
  "replacePrefix p s = (if startsWith s p then drop (length p) s else s)"

text \<open>Truthiness of a string that may be \<open>null\<close>: the empty string is falsy.\<close>

definition truthy :: "string option \<Rightarrow> bool" where
  "truthy v = (case v of None \<Rightarrow> False | Some s \<Rightarrow> s \<noteq> [])"


section \<open>The cached policy and the background state\<close>

text \<open>
  The configuration object the server returns from \<open>GET /config/{id}\<close>, with the
  attributes \<open>background.js\<close> reads. An attribute that is missing or \<open>null\<close> is
  \<open>None\<close>. \<open>disabledUntil\<close> is held as the instant \<open>new Date(config.disabledUntil)\<close>
  denotes, in milliseconds since the epoch; it is \<open>None\<close> when the attribute is missing,
  empty or not a date, where the guard \<open>config.disabledUntil && new Date() < ...\<close> is
  false. \<open>freeTimeStartedAt\<close> is the server's timestamp text; the code never parses it:
  \<open>isFreeTime\<close> tests that it is not \<open>null\<close>, \<open>getLocalRemainingSeconds\<close> and
  \<open>updateBadge\<close> that it is truthy. \<open>enabled\<close> is the enforcement flag of the policy
  snapshot; no function of the server-backed \<open>background.js\<close> reads it. The remaining
  seconds are exact numbers.
\<close>

record config =
  enabled :: "bool option"
  whitelist :: "string list option"
  freeTimeStartedAt :: "string option"
  freeTimeRemaining :: "real option"
  disabledUntil :: "int option"
  youtubeCreators :: "string list option"
  youtubeKeywords :: "string list option"

text \<open>The globals of \<open>background.js\<close>. \<open>lastSyncTime\<close> is a \<open>Date.now()\<close> reading.\<close>

record state =
  apiUrl :: "string option"
  configId :: "string option"
  config :: "config option"
  storageLoaded :: bool
  lastSyncTime :: "int option"

section \<open>Budget tracking\<close>

text \<open>\<open>config.freeTimeRemaining || 0\<close>.\<close>

definition serverRemaining :: "config \<Rightarrow> real" where
  "serverRemaining c = (case freeTimeRemaining c of None \<Rightarrow> 0 | Some r \<Rightarrow> r)"

text \<open>\<open>(Date.now() - lastSyncTime) / 1000\<close>, the clock reading \<open>now\<close> in milliseconds.\<close>

definition secondsSinceSync :: "int \<Rightarrow> int \<Rightarrow> real" where
  "secondsSinceSync now t = real_of_int (now - t) / 1000"

text \<open>
  \<open>config.disabledUntil && new Date() < new Date(config.disabledUntil)\<close>. Within one
  call, \<open>new Date()\<close> and \<open>Date.now()\<close> are the one clock reading \<open>now\<close>.
\<close>

definition disabledNow :: "config \<Rightarrow> int \<Rightarrow> bool" where
  "disabledNow c now = (case disabledUntil c of None \<Rightarrow> False | Some u \<Rightarrow> now < u)"

definition isFreeTime :: "state \<Rightarrow> int \<Rightarrow> bool" where
  "isFreeTime st now =
     (case config st of
        None \<Rightarrow> False
      | Some c \<Rightarrow>
          if disabledNow c now then True
          else if freeTimeStartedAt c \<noteq> None then
            (case lastSyncTime st of
               Some t \<Rightarrow>
                 if t \<noteq> 0 then serverRemaining c - secondsSinceSync now t > 0
                 else serverRemaining c > 0
             | None \<Rightarrow> serverRemaining c > 0)
          else False)"

definition getLocalRemainingSeconds :: "state \<Rightarrow> int \<Rightarrow> real" where
  "getLocalRemainingSeconds st now =
     (case config st of
        None \<Rightarrow> 0
      | Some c \<Rightarrow>
          (case lastSyncTime st of
             Some t \<Rightarrow>
               if t \<noteq> 0 \<and> truthy (freeTimeStartedAt c)
               then max 0 (serverRemaining c - secondsSinceSync now t)
               else serverRemaining c
           | None \<Rightarrow> serverRemaining c))"

section \<open>The browser\<close>

text \<open>
  What the code takes from the browser is a parameter of the model: the regular
  expression engine, the URL parser and the extension's own address. \<open>RegExp_i p\<close> is
  \<open>new RegExp(p, 'i')\<close> and \<open>RegExp p\<close> is \<open>new RegExp(p)\<close>: \<open>None\<close> when the
  constructor throws a SyntaxError, and the \<open>test\<close> method of the compiled expression
  otherwise. \<open>newURL s\<close> is \<open>new URL(s)\<close>: \<open>None\<close> when it throws. \<open>getURL\<close> is
  \<open>chrome.runtime.getURL\<close>.
\<close>

record url =
  hostname :: string
  pathname :: string

record browser =
  RegExp_i :: "string \<Rightarrow> (string \<Rightarrow> bool) option"
  RegExp :: "string \<Rightarrow> (string \<Rightarrow> bool) option"
  newURL :: "string \<Rightarrow> url option"
  getURL :: "string \<Rightarrow> string"

section \<open>The rule evaluator\<close>

text \<open>The callback of \<open>config.whitelist.some(...)\<close>, with its \<open>try\<close> and \<open>catch\<close>.\<close>

definition patternMatches :: "browser \<Rightarrow> string \<Rightarrow> string \<Rightarrow> bool" where
  "patternMatches B u pattern =
     (case RegExp_i B pattern of
        Some re \<Rightarrow> re u
      | None \<Rightarrow> includesStr (toLowerCase u) (toLowerCase pattern))"

definition matchesWhitelist :: "browser \<Rightarrow> state \<Rightarrow> string \<Rightarrow> bool" where
  "matchesWhitelist B st u =
     (case config st of
        None \<Rightarrow> False
      | Some c \<Rightarrow>
          (case whitelist c of
             None \<Rightarrow> False
           | Some ps \<Rightarrow> list_ex (patternMatches B u) ps))"

definition isYouTubeVideo :: "browser \<Rightarrow> string \<Rightarrow> bool" where
  "isYouTubeVideo B s =
     (case newURL B s of
        None \<Rightarrow> False
      | Some u \<Rightarrow>
          (hostname u = ''www.youtube.com'' \<or> hostname u = ''youtube.com'')
          \<and> pathname u = ''/watch'')"

definition isYouTubeAllowedPage :: "browser \<Rightarrow> string \<Rightarrow> bool" where
  "isYouTubeAllowedPage B s =
     (case newURL B s of
        None \<Rightarrow> False
      | Some u \<Rightarrow>
          if hostname u \<noteq> ''www.youtube.com'' \<and> hostname u \<noteq> ''youtube.com'' then False
          else if pathname u = ''/'' \<or> pathname u = [] \<or> pathname u = ''/results''
            then True
          else if startsWith (pathname u) ''/@'' \<or> startsWith (pathname u) ''/c/''
                  \<or> startsWith (pathname u) ''/channel/''
                  \<or> startsWith (pathname u) ''/user/''
            then True
          else False)"

text \<open>\<open>shouldBlock\<close> at the clock reading \<open>now\<close>: \<open>True\<close> is Block, \<open>False\<close> is Allow.\<close>

definition shouldBlock :: "browser \<Rightarrow> state \<Rightarrow> int \<Rightarrow> string \<Rightarrow> bool" where
  "shouldBlock B st now u =
     (if startsWith u ''chrome://'' \<or> startsWith u ''chrome-extension://'' then False
      else if \<not> truthy (configId st) then True
      else if isFreeTime st now then False
      else if matchesWhitelist B st u then False
      else if isYouTubeAllowedPage B u then False
      else if isYouTubeVideo B u then False
      else True)"

section \<open>The secondary evaluator\<close>

text \<open>
  A regular expression \<open>/^(p1|p2|...)/\<close> of literal alternatives, replaced by the empty
  string: the first alternative that is a prefix is removed.
\<close>

fun replaceAnyPrefix :: "string list \<Rightarrow> string \<Rightarrow> string" where
  "replaceAnyPrefix [] s = s"
| "replaceAnyPrefix (p # ps) s =
     (if startsWith s p then drop (length p) s else replaceAnyPrefix ps s)"

definition normalizeCreator :: "string option \<Rightarrow> string" where
  "normalizeCreator input =
     (if \<not> truthy input then []
      else
        let s = trim (toLowerCase (the input));
            s = replaceAnyPrefix [''https://'', ''http://''] s;
            s = replacePrefix ''www.'' s;
            s = replacePrefix ''youtube.com/'' s;
            s = replacePrefix ''@'' s;
            s = replaceAnyPrefix [''/c/'', ''/channel/'', ''/user/''] s;
            s = replaceAnyPrefix [''c/'', ''channel/'', ''user/''] s
        in takeWhile (\<lambda>c. c \<noteq> CHR ''/'') s)"

definition youtubeCreatorAllowed :: "state \<Rightarrow> string option \<Rightarrow> string option \<Rightarrow> bool" where
  "youtubeCreatorAllowed st authorName authorUrl =
     (case config st of
        None \<Rightarrow> False
      | Some c \<Rightarrow>
          (case youtubeCreators c of
             None \<Rightarrow> False
           | Some creators \<Rightarrow>
               if creators = [] then False
               else
                 let normalizedAuthorName = normalizeCreator authorName;
                     normalizedAuthorUrl = normalizeCreator authorUrl
                 in list_ex
                      (\<lambda>creator.
                         let normalizedCreator = normalizeCreator (Some creator)
                         in normalizedAuthorName = normalizedCreator
                            \<or> normalizedAuthorUrl = normalizedCreator
                            \<or> includesStr normalizedAuthorName normalizedCreator
                            \<or> includesStr normalizedAuthorUrl normalizedCreator)
                      creators))"

datatype jsError = TypeError | FetchFailed | JsonSyntaxError

text \<open>
  \<open>title.toLowerCase()\<close> throws a TypeError when the looked-up title is missing; the
  call is reached only when the keyword list is not empty.
\<close>

definition youtubeVideoAllowed :: "state \<Rightarrow> string option \<Rightarrow> jsError + bool" where
  "youtubeVideoAllowed st title =
     (case config st of
        None \<Rightarrow> Inr False
      | Some c \<Rightarrow>
          (case youtubeKeywords c of
             None \<Rightarrow> Inr False
           | Some keywords \<Rightarrow>
               if keywords = [] then Inr False
               else
                 (case title of
                    None \<Rightarrow> Inl TypeError
                  | Some t \<Rightarrow>
                      Inr (list_ex (\<lambda>k. includesStr (toLowerCase t) (toLowerCase k))
                             keywords))))"

text \<open>
  \<open>encodeURIComponent\<close> on text held as UTF-8 bytes: the unreserved characters stay,
  every other byte becomes \<open>%\<close> and two hexadecimal digits.
\<close>

definition unreserved :: "char \<Rightarrow> bool" where
  "unreserved c =
     (let n = (of_char c :: nat)
      in (65 \<le> n \<and> n \<le> 90) \<or> (97 \<le> n \<and> n \<le> 122) \<or> (48 \<le> n \<and> n \<le> 57)
         \<or> c \<in> set ''-_.!~*'()'')"

definition hexDigit :: "nat \<Rightarrow> char" where
  "hexDigit n = (if n < 10 then char_of (48 + n) else char_of (55 + n))"

definition encodeURIComponent :: "string \<Rightarrow> string" where
  "encodeURIComponent s =
     concat (map (\<lambda>c. if unreserved c then [c]
                       else [CHR ''%'', hexDigit ((of_char c :: nat) div 16),
                             hexDigit ((of_char c :: nat) mod 16)]) s)"

definition blockedUrl :: "browser \<Rightarrow> string \<Rightarrow> string" where
  "blockedUrl B u = getURL B (''pages/blocked.html?url='' @ encodeURIComponent u)"

text \<open>
  The outcome of a \<open>fetch\<close>: the promise rejects (\<open>NetworkError\<close>), or it resolves to a
  response with a status and a body. \<open>res.json()\<close> rejects on a body that is not JSON
  (\<open>Malformed\<close>). \<open>res.ok\<close> is true for the statuses 200 to 299.
\<close>

datatype 'a body = Malformed | Json 'a

datatype 'a response = NetworkError | Response nat "'a body"

definition ok :: "nat \<Rightarrow> bool" where
  "ok status = (200 \<le> status \<and> status \<le> 299)"

text \<open>A value inside a template literal, and as the argument of \<open>encodeURIComponent\<close>.\<close>

definition toString :: "string option \<Rightarrow> string" where
  "toString v = (case v of None \<Rightarrow> ''null'' | Some s \<Rightarrow> s)"

record videoInfo =
  title :: "string option"
  authorName :: "string option"
  authorUrl :: "string option"

definition infoUrl :: "state \<Rightarrow> string \<Rightarrow> string" where
  "infoUrl st u =
     toString (apiUrl st) @ ''/youtube-info?url='' @ encodeURIComponent u
       @ ''&configId='' @ encodeURIComponent (toString (configId st))"

text \<open>
  \<open>fetchYouTubeInfo\<close>, the network given as the function \<open>fetch\<close> from the requested
  address to the outcome. A body that is JSON \<open>null\<close> is \<open>Json None\<close>: reading
  \<open>data.title\<close> throws there, inside the \<open>try\<close>.
\<close>

definition fetchYouTubeInfo ::
  "(string \<Rightarrow> videoInfo option response) \<Rightarrow> state \<Rightarrow> string \<Rightarrow> videoInfo option" where
  "fetchYouTubeInfo fetch st u =
     (case fetch (infoUrl st u) of
        NetworkError \<Rightarrow> None
      | Response status b \<Rightarrow>
          if ok status then
            (case b of
               Malformed \<Rightarrow> None
             | Json None \<Rightarrow> None
             | Json (Some data) \<Rightarrow>
                 Some \<lparr>title = title data, authorName = authorName data,
                       authorUrl = authorUrl data\<rparr>)
          else None)"

text \<open>The object passed to \<open>reply\<close> by the \<open>checkYouTube\<close> handler; a key left out is \<open>None\<close>.\<close>

record reply =
  shouldCheck :: bool
  allowed :: "bool option"
  replyTitle :: "string option"
  author :: "string option"
  reason :: "string option"
  replyBlockedUrl :: "string option"

definition noCheck :: reply where
  "noCheck = \<lparr>shouldCheck = False, allowed = None, replyTitle = None, author = None,
              reason = None, replyBlockedUrl = None\<rparr>"

text \<open>
  The last part of the \<open>checkYouTube\<close> handler: the lookup and the callback of its
  \<open>then\<close>, run without another handler in between. The result is \<open>Inl\<close> when the
  callback throws, and no reply is sent then.
\<close>

definition checkYouTubeLookup ::
  "browser \<Rightarrow> (string \<Rightarrow> videoInfo option response) \<Rightarrow> state \<Rightarrow> string \<Rightarrow> jsError + reply" where
  "checkYouTubeLookup B fetch st u =
     (case fetchYouTubeInfo fetch st u of
        None \<Rightarrow>
          Inr \<lparr>shouldCheck = True, allowed = Some False, replyTitle = None, author = None,
               reason = Some ''Could not verify video'',
               replyBlockedUrl = Some (blockedUrl B u)\<rparr>
      | Some info \<Rightarrow>
          if youtubeCreatorAllowed st (authorName info) (authorUrl info) then
            Inr \<lparr>shouldCheck = True, allowed = Some True, replyTitle = title info,
                 author = authorName info, reason = None, replyBlockedUrl = None\<rparr>
          else
            (case youtubeVideoAllowed st (title info) of
               Inl e \<Rightarrow> Inl e
             | Inr True \<Rightarrow>
                 Inr \<lparr>shouldCheck = True, allowed = Some True, replyTitle = title info,
                      author = None, reason = None, replyBlockedUrl = None\<rparr>
             | Inr False \<Rightarrow>
                 Inr \<lparr>shouldCheck = True, allowed = Some False, replyTitle = title info,
                      author = authorName info,
                      reason = Some ''Video not from allowed creator or matching keywords'',
                      replyBlockedUrl = Some (blockedUrl B u)\<rparr>))"

definition checkYouTube ::
  "browser \<Rightarrow> (string \<Rightarrow> videoInfo option response) \<Rightarrow> state \<Rightarrow> int \<Rightarrow> string
     \<Rightarrow> jsError + reply" where
  "checkYouTube B fetch st now u =
     (if \<not> truthy (configId st) then
        Inr \<lparr>shouldCheck = True, allowed = Some False, replyTitle = None, author = None,
             reason = Some ''Extension not configured'',
             replyBlockedUrl = Some (blockedUrl B u)\<rparr>
      else if isFreeTime st now then Inr noCheck
      else if matchesWhitelist B st u then Inr noCheck
      else checkYouTubeLookup B fetch st u)"

section \<open>Effects\<close>

text \<open>
  What a handler does to the outside, in the order it does it. \<open>Hours n\<close> and
  \<open>Minutes n\<close> are the badge texts \<open>n + 'h'\<close> and \<open>n + 'm'\<close>. Two entries are marks and
  not calls: \<open>StorageReady\<close> is the moment the promise \<open>storageReady\<close> resolves, and
  \<open>ShouldBlock u b\<close> is the navigation listener's call \<open>shouldBlock(u)\<close> with its result.
  The calls on \<open>chrome.storage\<close> are taken to succeed.
\<close>

datatype badge = NoBadge | Minutes int | Hours int

datatype action =
    StorageGet "string list"
  | StorageSet "config option" int
  | StorageRemove "string list"
  | Fetch string
  | ConsoleError
  | SetIcon string
  | SetBadgeText badge
  | SetBadgeBackgroundColor string
  | AlarmCreate string nat
  | TabsUpdate nat string
  | StorageReady
  | ShouldBlock string bool

definition formatBadgeTime :: "real \<Rightarrow> badge" where
  "formatBadgeTime seconds =
     (let minutes = \<lceil>seconds / 60\<rceil>
      in if minutes \<ge> 60 then Hours \<lceil>real_of_int minutes / 60\<rceil> else Minutes minutes)"

definition isTemporarilyDisabled :: "state \<Rightarrow> int \<Rightarrow> bool" where
  "isTemporarilyDisabled st now =
     (case config st of None \<Rightarrow> False | Some c \<Rightarrow> disabledNow c now)"

definition updateBadge :: "state \<Rightarrow> int \<Rightarrow> action list" where
  "updateBadge st now =
     (case config st of
        None \<Rightarrow> [SetBadgeText NoBadge]
      | Some c \<Rightarrow>
          if truthy (freeTimeStartedAt c) \<and> \<not> isTemporarilyDisabled st now then
            let localRemaining =
                  (case lastSyncTime st of
                     Some t \<Rightarrow>
                       if t \<noteq> 0 then max 0 (serverRemaining c - secondsSinceSync now t)
                       else serverRemaining c
                   | None \<Rightarrow> serverRemaining c)
            in [SetBadgeText (formatBadgeTime localRemaining),
                SetBadgeBackgroundColor ''#2aa198'']
          else [SetBadgeText NoBadge])"

definition updateIcon :: "state \<Rightarrow> int \<Rightarrow> action list" where
  "updateIcon st now =
     [SetIcon (if \<not> truthy (configId st) then []
               else if isFreeTime st now then ''-inactive''
               else ''-active'')]"

section \<open>The sync client\<close>

definition configUrl :: "state \<Rightarrow> string" where
  "configUrl st = toString (apiUrl st) @ ''/config/'' @ toString (configId st)"

text \<open>
  The \<open>try\<close> block of \<open>syncConfig\<close>, after the request has been sent: \<open>Inl\<close> when it
  throws. Both places that throw (the \<open>fetch\<close> and \<open>res.json()\<close>) come before the first
  assignment to a global.
\<close>

definition syncConfigTry ::
  "(string \<Rightarrow> config option response) \<Rightarrow> state \<Rightarrow> int \<Rightarrow> jsError + (state \<times> action list)" where
  "syncConfigTry fetch st now =
     (case fetch (configUrl st) of
        NetworkError \<Rightarrow> Inl FetchFailed
      | Response status b \<Rightarrow>
          if ok status then
            (case b of
               Malformed \<Rightarrow> Inl JsonSyntaxError
             | Json c \<Rightarrow>
                 let st' = st\<lparr>config := c, lastSyncTime := Some now\<rparr>
                 in Inr (st', [StorageSet c now] @ updateIcon st' now @ updateBadge st' now))
          else if status = 404 then
            let st' = st\<lparr>configId := None, config := None, lastSyncTime := None\<rparr>
            in Inr (st', [StorageRemove [''configId'', ''config'', ''lastSyncTime'']]
                         @ updateIcon st' now @ updateBadge st' now)
          else Inr (st, []))"

text \<open>
  \<open>syncConfig\<close>, run without another handler in between: the promise it returns
  resolves (\<open>Inr\<close>) with the globals and the effects, or rejects (\<open>Inl\<close>).
\<close>

definition syncConfig ::
  "(string \<Rightarrow> config option response) \<Rightarrow> state \<Rightarrow> int \<Rightarrow> jsError + (state \<times> action list)" where
  "syncConfig fetch st now =
     (if \<not> truthy (configId st) \<or> \<not> truthy (apiUrl st) then Inr (st, [])
      else
        (case syncConfigTry fetch st now of
           Inl e \<Rightarrow> Inr (st, [Fetch (configUrl st), ConsoleError])
         | Inr (st', acts) \<Rightarrow> Inr (st', Fetch (configUrl st) # acts)))"

section \<open>Start of the process and the navigation listener\<close>















section \<open>The local-settings variant of the background script\<close>

text \<open>
  The repository holds a second \<open>background.js\<close>, which keeps its settings in local
  storage and enforces a weekly schedule. Its fields \<open>enabled\<close> and \<open>whitelist\<close> are
  named \<open>settingsEnabled\<close> and \<open>settingsWhitelist\<close> here, and the \<open>start\<close> and \<open>end\<close> of
  a schedule range \<open>rangeStart\<close> and \<open>rangeEnd\<close>. \<open>shouldBlockUrl\<close> is given the settings
  that \<open>getSettings\<close> resolves to.
\<close>

record range =
  rangeStart :: "string option"
  rangeEnd :: "string option"

record settings =
  settingsEnabled :: bool
  settingsWhitelist :: "string list"
  password :: string
  schedules :: "range list list"
  manualDisabledUntil :: int

text \<open>The readings of the local clock the script takes.\<close>

record clock =
  dateNow :: int
  getDay :: nat
  getHours :: nat
  getMinutes :: nat

text \<open>\<open>a < b\<close> on strings: the order of the first code unit that differs.\<close>

fun strLess :: "string \<Rightarrow> string \<Rightarrow> bool" where
  "strLess [] [] = False"
| "strLess [] (y # ys) = True"
| "strLess (x # xs) [] = False"
| "strLess (x # xs) (y # ys) =
     ((of_char x :: nat) < of_char y \<or> (x = y \<and> strLess xs ys))"

text \<open>\<open>n.toString().padStart(2, "0")\<close> for an hour or a minute.\<close>

definition pad2 :: "nat \<Rightarrow> string" where
  "pad2 n = [char_of (48 + n div 10), char_of (48 + n mod 10)]"

fun inRanges :: "string \<Rightarrow> range list \<Rightarrow> bool" where
  "inRanges cur [] = False"
| "inRanges cur (r # rs) =
     (if \<not> truthy (rangeStart r) \<or> \<not> truthy (rangeEnd r) then inRanges cur rs
      else
        let s = the (rangeStart r); e = the (rangeEnd r)
        in if \<not> strLess cur s \<and> strLess cur e then True
           else if strLess e s \<and> (\<not> strLess cur s \<or> \<not> strLess e cur) then True
           else inRanges cur rs)"

definition timeInRangeNow :: "clock \<Rightarrow> range list \<Rightarrow> bool" where
  "timeInRangeNow k ranges =
     (if ranges = [] then False
      else inRanges (pad2 (getHours k) @ '':'' @ pad2 (getMinutes k)) ranges)"

definition isSpecialUrl :: "string \<Rightarrow> bool" where
  "isSpecialUrl u =
     (startsWith u ''chrome://'' \<or> startsWith u ''chrome-extension://''
      \<or> startsWith u ''file://'' \<or> startsWith u ''about:'')"

text \<open>A pattern that does not compile is left out, with a warning on the console.\<close>

definition compileRegexes :: "browser \<Rightarrow> string list \<Rightarrow> (string \<Rightarrow> bool) list" where
  "compileRegexes B list = List.map_filter (RegExp B) list"

definition shouldBlockUrl :: "browser \<Rightarrow> settings \<Rightarrow> clock \<Rightarrow> string \<Rightarrow> bool" where
  "shouldBlockUrl B s k u =
     (if \<not> settingsEnabled s then False
      else if manualDisabledUntil s \<noteq> 0 \<and> dateNow k < manualDisabledUntil s then False
      else if isSpecialUrl u then False
      else if \<not> timeInRangeNow k
                 (if getDay k < length (schedules s) then schedules s ! getDay k else [])
        then False
      else if list_ex (\<lambda>re. re u) (compileRegexes B (settingsWhitelist s)) then False
      else True)"

section \<open>A browser for the examples\<close>

text \<open>
  The examples below are evaluated in a small browser. Its regular expressions are the
  patterns made of letters and digits only, which match where they occur in the text;
  it rejects every other pattern. Its addresses are the absolute \<open>http\<close> and \<open>https\<close>
  ones without credentials, port, escapes or dot segments. On the patterns and addresses
  of the examples it answers as Chrome does.
\<close>

definition alphanumeric :: "char \<Rightarrow> bool" where
  "alphanumeric c =
     (let n = (of_char c :: nat)
      in (65 \<le> n \<and> n \<le> 90) \<or> (97 \<le> n \<and> n \<le> 122) \<or> (48 \<le> n \<and> n \<le> 57))"

definition exampleAuthority :: "string \<Rightarrow> url option" where
  "exampleAuthority r =
     (let host = takeWhile (\<lambda>c. c \<notin> set ''/?#'') r;
          path = takeWhile (\<lambda>c. c \<notin> set ''?#'') (dropWhile (\<lambda>c. c \<notin> set ''/?#'') r)
      in if host = [] then None
         else Some \<lparr>hostname = toLowerCase host,
                    pathname = (if path = [] then ''/'' else path)\<rparr>)"

definition exampleBrowser :: browser where
  "exampleBrowser =
     \<lparr>RegExp_i = (\<lambda>p. if list_all alphanumeric p
                       then Some (\<lambda>u. includesStr (toLowerCase u) (toLowerCase p))
                       else None),
      RegExp = (\<lambda>p. if list_all alphanumeric p then Some (\<lambda>u. includesStr u p) else None),
      newURL = (\<lambda>s. if startsWith (toLowerCase s) ''https://'' then exampleAuthority (drop 8 s)
                     else if startsWith (toLowerCase s) ''http://''
                       then exampleAuthority (drop 7 s)
                     else None),
      getURL = (\<lambda>path. ''chrome-extension://abcdefghijklmnopabcdefghijklmnop/'' @ path)\<rparr>"

text \<open>Example states: a paired client outside free time, and the clock of the examples.\<close>

definition exampleConfig :: config where
  "exampleConfig =
     \<lparr>enabled = Some True, whitelist = Some [''example''], freeTimeStartedAt = None,
      freeTimeRemaining = Some 1800, disabledUntil = None,
      youtubeCreators = Some [''veritasium''], youtubeKeywords = Some [''lecture'']\<rparr>"

definition exampleState :: state where
  "exampleState =
     \<lparr>apiUrl = Some ''https://api.example'', configId = Some ''ABCD-1234'',
      config = Some exampleConfig, storageLoaded = True,
      lastSyncTime = Some 1700000000000\<rparr>"


section \<open>Failed requests\<close>

text \<open>
  A content lookup fails when the request is rejected or the response is not OK. A
  refresh fails when the request is rejected, when the status is neither OK nor 404, or
  when the status is OK and the body is not JSON.
\<close>

definition lookupFailed :: "'a response \<Rightarrow> bool" where
  "lookupFailed r = (case r of NetworkError \<Rightarrow> True | Response status b \<Rightarrow> \<not> ok status)"

definition refreshFailed :: "'a response \<Rightarrow> bool" where
  "refreshFailed r =
     (case r of
        NetworkError \<Rightarrow> True
      | Response status b \<Rightarrow>
          if ok status then (case b of Malformed \<Rightarrow> True | Json c \<Rightarrow> False)
          else status \<noteq> 404)"

section \<open>More example states\<close>



definition exhaustedSession :: state where
  "exhaustedSession =
     exampleState\<lparr>config :=
       Some (exampleConfig\<lparr>freeTimeStartedAt := Some ''2023-11-14T22:13:20Z'',
                            freeTimeRemaining := Some 120\<rparr>)\<rparr>"

definition fallbackState :: state where
  "fallbackState =
     exampleState\<lparr>config := Some (exampleConfig\<lparr>whitelist := Some [''(docs'']\<rparr>)\<rparr>"

definition exampleSettings :: settings where
  "exampleSettings =
     \<lparr>settingsEnabled = False, settingsWhitelist = [''google''], password = ''password'',
      schedules = [[], [\<lparr>rangeStart = Some ''09:00'', rangeEnd = Some ''17:00''\<rparr>],
                   [], [], [], [], []],
      manualDisabledUntil = 0\<rparr>"

definition exampleClock :: clock where
  "exampleClock = \<lparr>dateNow = 1700000060000, getDay = 1, getHours = 10, getMinutes = 30\<rparr>"

section \<open>Properties of the string functions\<close>

lemma startsWith_iff: "startsWith s p \<longleftrightarrow> (\<exists>r. s = p @ r)"
  by (induction s p rule: startsWith.induct) auto

lemma includesStr_iff: "includesStr s sub \<longleftrightarrow> (\<exists>l r. s = l @ sub @ r)"
proof (induction s)
  case Nil
  then show ?case by auto
next
  case (Cons c cs)
  show ?case
  proof
    assume "includesStr (c # cs) sub"
    then consider "startsWith (c # cs) sub" | "includesStr cs sub" by auto
    then show "\<exists>l r. c # cs = l @ sub @ r"
    proof cases
      case 1
      then obtain r where "c # cs = sub @ r" by (auto simp: startsWith_iff)
      then have "c # cs = [] @ sub @ r" by simp
      then show ?thesis by blast
    next
      case 2
      then obtain l r where "cs = l @ sub @ r" using Cons.IH by blast
      then have "c # cs = (c # l) @ sub @ r" by simp
      then show ?thesis by blast
    qed
  next
    assume "\<exists>l r. c # cs = l @ sub @ r"
    then obtain l r where lr: "c # cs = l @ sub @ r" by blast
    show "includesStr (c # cs) sub"
    proof (cases l)
      case Nil
      with lr have "startsWith (c # cs) sub" by (auto simp: startsWith_iff)
      then show ?thesis by simp
    next
      case (Cons a l')
      with lr have "cs = l' @ sub @ r" by simp
      then have "includesStr cs sub" using Cons.IH by blast
      then show ?thesis by simp
    qed
  qed
qed

lemma includesStr_refl: "includesStr s s"
  by (auto simp: includesStr_iff intro: exI[of _ "[]"])

section \<open>The master-off switch (C1)\<close>

lemma serverRemaining_enabled: "serverRemaining (c\<lparr>enabled := e\<rparr>) = serverRemaining c"
  by (simp add: serverRemaining_def)

lemma isFreeTime_enabled:
  "isFreeTime (st\<lparr>config := Some (c\<lparr>enabled := e\<rparr>)\<rparr>) now
     = isFreeTime (st\<lparr>config := Some c\<rparr>) now"
  by (simp add: isFreeTime_def disabledNow_def serverRemaining_enabled split: option.splits)

lemma matchesWhitelist_enabled:
  "matchesWhitelist B (st\<lparr>config := Some (c\<lparr>enabled := e\<rparr>)\<rparr>) u
     = matchesWhitelist B (st\<lparr>config := Some c\<rparr>) u"
  by (simp add: matchesWhitelist_def)

text \<open>
  C1, as stated, fails: for the paired client outside free time whose snapshot has
  \<open>enabled = false\<close>, \<open>shouldBlock\<close> blocks \<open>https://other.com/\<close>.
\<close>

theorem master_off_counterexample:
  "enabled (exampleConfig\<lparr>enabled := Some False\<rparr>) = Some False
   \<and> shouldBlock exampleBrowser
        (exampleState\<lparr>config := Some (exampleConfig\<lparr>enabled := Some False\<rparr>)\<rparr>)
        1700000060000 ''https://other.com/'' = True"
  by code_simp

text \<open>
  C1, amended. The master-off switch is the \<open>enabled\<close> setting of the local-settings
  variant: when it is false, \<open>shouldBlockUrl\<close> allows every address, whatever the
  schedule, the clock and the whitelist are. The server-backed \<open>shouldBlock\<close> has no such
  switch: its verdict is the same whatever the \<open>enabled\<close> attribute of the snapshot is.
\<close>

theorem master_off_local_settings_only:
  "(\<not> settingsEnabled s \<longrightarrow> shouldBlockUrl B s k u = False)
   \<and> shouldBlock B' (st\<lparr>config := Some (c\<lparr>enabled := e\<rparr>)\<rparr>) now u
       = shouldBlock B' (st\<lparr>config := Some c\<rparr>) now u"
  by (simp add: shouldBlockUrl_def shouldBlock_def isFreeTime_enabled matchesWhitelist_enabled)

text \<open>
  The amended C1 on a Monday at 10:30, inside the schedule, for an address the
  whitelist does not match.
\<close>

theorem master_off_local_settings_only_witness:
  "\<not> settingsEnabled exampleSettings
   \<and> shouldBlockUrl exampleBrowser exampleSettings exampleClock ''https://other.com/'' = False
   \<and> shouldBlock exampleBrowser
        (exampleState\<lparr>config := Some (exampleConfig\<lparr>enabled := Some False\<rparr>)\<rparr>)
        1700000060000 ''https://other.com/''
       = shouldBlock exampleBrowser (exampleState\<lparr>config := Some exampleConfig\<rparr>)
           1700000060000 ''https://other.com/''"
  using master_off_local_settings_only
    [where s = exampleSettings and B = exampleBrowser and k = exampleClock
       and u = "''https://other.com/''" and B' = exampleBrowser and st = exampleState
       and c = exampleConfig and e = "Some False" and now = 1700000060000]
  by (simp add: exampleSettings_def)

section \<open>The creator match (C2)\<close>

lemma creator_callback:
  "(a = c \<or> b = c \<or> includesStr a c \<or> includesStr b c)
     = (includesStr a c \<or> includesStr b c)"
  using includesStr_refl by auto

text \<open>
  C2, as stated, fails: the author name \<open>veri\<close> is contained within the allow-list entry
  \<open>veritasium\<close>, and \<open>youtubeCreatorAllowed\<close> does not allow it.
\<close>

theorem creator_match_counterexample:
  "includesStr (normalizeCreator (Some ''veritasium'')) (normalizeCreator (Some ''veri''))
   \<and> youtubeCreators exampleConfig = Some [''veritasium'']
   \<and> \<not> youtubeCreatorAllowed exampleState (Some ''veri'') None"
  by code_simp

text \<open>
  C2, amended. \<open>youtubeCreatorAllowed\<close> allows exactly when the snapshot has a creator
  allow-list and some normalized entry of it equals, or is contained within, the
  normalized author name or the normalized author URL. The containment goes one way:
  the entry within the author value.
\<close>

theorem creator_match_entry_within_author:
  "youtubeCreatorAllowed st n l \<longleftrightarrow>
     (\<exists>c creators. config st = Some c \<and> youtubeCreators c = Some creators
        \<and> (\<exists>creator \<in> set creators.
              includesStr (normalizeCreator n) (normalizeCreator (Some creator))
              \<or> includesStr (normalizeCreator l) (normalizeCreator (Some creator))))"
  by (auto simp: youtubeCreatorAllowed_def list_ex_iff Let_def creator_callback
           split: option.splits)

text \<open>The amended C2 for the author \<open>Veritasium Clips\<close> and the entry \<open>veritasium\<close>.\<close>

theorem creator_match_entry_within_author_witness:
  "youtubeCreatorAllowed exampleState (Some ''Veritasium Clips'') None
   \<and> config exampleState = Some exampleConfig
   \<and> youtubeCreators exampleConfig = Some [''veritasium'']
   \<and> includesStr (normalizeCreator (Some ''Veritasium Clips''))
        (normalizeCreator (Some ''veritasium''))"
proof -
  have inc: "includesStr (normalizeCreator (Some ''Veritasium Clips''))
               (normalizeCreator (Some ''veritasium''))"
    by code_simp
  have c: "config exampleState = Some exampleConfig"
    by (simp add: exampleState_def)
  have y: "youtubeCreators exampleConfig = Some [''veritasium'']"
    by (simp add: exampleConfig_def)
  from inc c y show ?thesis
    using creator_match_entry_within_author
      [of exampleState "Some ''Veritasium Clips''" None]
    by auto
qed

section \<open>The start of the process (C3)\<close>




























section \<open>The unconfigured client (C4)\<close>

text \<open>
  C4. When the client has no identity (\<open>configId\<close> is \<open>null\<close> or empty), \<open>shouldBlock\<close>
  blocks every address that does not start with \<open>chrome://\<close> or \<open>chrome-extension://\<close>,
  whatever the cached snapshot, the clock and the browser are.
\<close>

theorem unconfigured_blocks:
  assumes "\<not> truthy (configId st)"
    and "\<not> startsWith u ''chrome://''" and "\<not> startsWith u ''chrome-extension://''"
  shows "shouldBlock B st now u = True"
  using assms by (simp add: shouldBlock_def)

text \<open>C4 for an address that the allow-list of the cached snapshot matches.\<close>

theorem unconfigured_blocks_witness:
  "\<not> truthy (configId (exampleState\<lparr>configId := None\<rparr>))
   \<and> \<not> startsWith ''https://Example.com/page'' ''chrome://''
   \<and> \<not> startsWith ''https://Example.com/page'' ''chrome-extension://''
   \<and> shouldBlock exampleBrowser (exampleState\<lparr>configId := None\<rparr>) 1700000060000
        ''https://Example.com/page'' = True"
  using unconfigured_blocks
    [of "exampleState\<lparr>configId := None\<rparr>" "''https://Example.com/page''" exampleBrowser
        1700000060000]
  by (simp add: truthy_def)

section \<open>The allow-list (C5)\<close>

lemma matchesWhitelist_member:
  assumes "config st = Some c" and "whitelist c = Some ps" and "pattern \<in> set ps"
    and "case RegExp_i B pattern of
           Some re \<Rightarrow> re u
         | None \<Rightarrow> includesStr (toLowerCase u) (toLowerCase pattern)"
  shows "matchesWhitelist B st u"
proof -
  from assms(4) have "patternMatches B u pattern"
    by (simp add: patternMatches_def)
  with assms(3) have "list_ex (patternMatches B u) ps"
    by (auto simp: list_ex_iff)
  with assms(1,2) show ?thesis
    by (simp add: matchesWhitelist_def)
qed

text \<open>
  C5. The allow-list rule comes after the rule of the unconfigured client. On a client
  that has an identity, \<open>shouldBlock\<close> allows every address that some allow-list pattern
  of the cached snapshot matches, whether or not free time is active and whatever the
  address is otherwise: the pattern compiles as a case-insensitive regular expression
  that matches the address, or it does not compile and the lower-cased address contains
  the lower-cased pattern. The verdict is Allow also for a watch page: the
  \<open>checkYouTube\<close> handler answers that no check is needed, without a lookup.
\<close>

theorem allow_list_allows_when_configured:
  assumes "truthy (configId st)"
    and "config st = Some c" and "whitelist c = Some ps" and "pattern \<in> set ps"
    and "case RegExp_i B pattern of
           Some re \<Rightarrow> re u
         | None \<Rightarrow> includesStr (toLowerCase u) (toLowerCase pattern)"
  shows "shouldBlock B st now u = False \<and> checkYouTube B fetch st now u = Inr noCheck"
  using assms(1) matchesWhitelist_member [OF assms(2-5)]
  by (simp add: shouldBlock_def checkYouTube_def)

text \<open>
  C5 outside free time, for the pattern \<open>example\<close>, which compiles, and for the pattern
  \<open>(docs\<close>, which does not; an address neither matches is blocked.
\<close>

theorem allow_list_allows_when_configured_witness:
  "truthy (configId exampleState)
   \<and> \<not> isFreeTime exampleState 1700000060000
   \<and> RegExp_i exampleBrowser ''(docs'' = None
   \<and> shouldBlock exampleBrowser exampleState 1700000060000 ''https://Example.com/page'' = False
   \<and> checkYouTube exampleBrowser (\<lambda>a. NetworkError) exampleState 1700000060000
        ''https://Example.com/page'' = Inr noCheck
   \<and> shouldBlock exampleBrowser fallbackState 1700000060000
        ''https://wiki.example/(Docs)/page'' = False
   \<and> shouldBlock exampleBrowser fallbackState 1700000060000 ''https://other.com/'' = True"
proof -
  have a: "truthy (configId exampleState)" "truthy (configId fallbackState)"
    by (simp_all add: truthy_def exampleState_def fallbackState_def)
  have b: "config exampleState = Some exampleConfig"
          "whitelist exampleConfig = Some [''example'']"
    by (simp_all add: exampleState_def exampleConfig_def)
  have c: "config fallbackState = Some (exampleConfig\<lparr>whitelist := Some [''(docs'']\<rparr>)"
          "whitelist (exampleConfig\<lparr>whitelist := Some [''(docs'']\<rparr>) = Some [''(docs'']"
    by (simp_all add: fallbackState_def)
  have d: "case RegExp_i exampleBrowser ''example'' of
             Some re \<Rightarrow> re ''https://Example.com/page''
           | None \<Rightarrow> includesStr (toLowerCase ''https://Example.com/page'')
                      (toLowerCase ''example'')"
    by code_simp
  have e: "case RegExp_i exampleBrowser ''(docs'' of
             Some re \<Rightarrow> re ''https://wiki.example/(Docs)/page''
           | None \<Rightarrow> includesStr (toLowerCase ''https://wiki.example/(Docs)/page'')
                      (toLowerCase ''(docs'')"
    by code_simp
  have f: "\<not> isFreeTime exampleState 1700000060000" "RegExp_i exampleBrowser ''(docs'' = None"
    "shouldBlock exampleBrowser fallbackState 1700000060000 ''https://other.com/'' = True"
    by code_simp+
  show ?thesis
    using a(1) f
      allow_list_allows_when_configured
        [OF a(1) b(1) b(2) _ d, where now = 1700000060000 and fetch = "\<lambda>a. NetworkError"]
      allow_list_allows_when_configured
        [OF a(2) c(1) c(2) _ e, where now = 1700000060000 and fetch = "\<lambda>a. NetworkError"]
    by simp
qed

text \<open>
  The local-settings variant has an allow-list too, and its rule is narrower. A pattern
  is compiled without the flag \<open>i\<close>, and \<open>shouldBlockUrl\<close> allows every address that a
  compiled pattern matches; a pattern that does not compile is left out, with no
  containment test in its place. In the example browser, on a Monday at 10:30 inside
  the schedule, the pattern \<open>(docs\<close> does not let an address that contains it through,
  and the pattern \<open>Example\<close> does not match \<open>https://example.com/page\<close>.
\<close>

lemma compiled_member:
  "pattern \<in> set ws \<Longrightarrow> RegExp B pattern = Some re \<Longrightarrow> re \<in> set (compileRegexes B ws)"
  by (induction ws) (auto simp: compileRegexes_def split: option.splits)

lemma shouldBlockUrl_compiled_match:
  assumes "pattern \<in> set (settingsWhitelist s)" and "RegExp B pattern = Some re" and "re u"
  shows "shouldBlockUrl B s k u = False"
  using compiled_member [OF assms(1,2)] assms(3)
  by (auto simp: shouldBlockUrl_def list_ex_iff)

lemma shouldBlockUrl_uncompiled_dropped:
  "RegExp exampleBrowser ''(docs'' = None
   \<and> shouldBlockUrl exampleBrowser
        (exampleSettings\<lparr>settingsEnabled := True, settingsWhitelist := [''(docs'']\<rparr>)
        exampleClock ''https://wiki.example/(docs)/page'' = True
   \<and> shouldBlockUrl exampleBrowser
        (exampleSettings\<lparr>settingsEnabled := True, settingsWhitelist := [''Example'']\<rparr>)
        exampleClock ''https://example.com/page'' = True"
  by code_simp

section \<open>The projected budget (C6, C7, C10)\<close>

text \<open>
  C6. For a cached snapshot with an open free-time session and a last sync time, the
  remaining seconds \<open>getLocalRemainingSeconds\<close> projects do not increase as the clock
  advances, are never negative, and are the stored remaining seconds less the seconds
  since the sync, floored at 0.
\<close>

theorem projected_remaining_drains:
  assumes "config st = Some c" and "truthy (freeTimeStartedAt c)"
    and "lastSyncTime st = Some t" and "t \<noteq> 0" and "now1 < now2"
  shows "getLocalRemainingSeconds st now2 \<le> getLocalRemainingSeconds st now1
         \<and> 0 \<le> getLocalRemainingSeconds st now1
         \<and> 0 \<le> getLocalRemainingSeconds st now2
         \<and> getLocalRemainingSeconds st now1
             = max 0 (serverRemaining c - real_of_int (now1 - t) / 1000)"
  using assms by (simp add: getLocalRemainingSeconds_def secondsSinceSync_def max_def)

text \<open>C6 on a session synced with 120 seconds left: 60, 90, 180 and 190 seconds later.\<close>

theorem projected_remaining_drains_witness:
  "config exhaustedSession
     = Some (exampleConfig\<lparr>freeTimeStartedAt := Some ''2023-11-14T22:13:20Z'',
                           freeTimeRemaining := Some 120\<rparr>)
   \<and> lastSyncTime exhaustedSession = Some 1700000000000
   \<and> getLocalRemainingSeconds exhaustedSession 1700000060000 = 60
   \<and> getLocalRemainingSeconds exhaustedSession 1700000090000 = 30
   \<and> getLocalRemainingSeconds exhaustedSession 1700000180000 = 0
   \<and> getLocalRemainingSeconds exhaustedSession 1700000190000 = 0
   \<and> getLocalRemainingSeconds exhaustedSession 1700000090000
       \<le> getLocalRemainingSeconds exhaustedSession 1700000060000"
proof -
  have a: "config exhaustedSession
     = Some (exampleConfig\<lparr>freeTimeStartedAt := Some ''2023-11-14T22:13:20Z'',
                           freeTimeRemaining := Some 120\<rparr>)"
    "lastSyncTime exhaustedSession = Some 1700000000000"
    by (simp_all add: exhaustedSession_def exampleState_def)
  have b: "truthy (freeTimeStartedAt
             (exampleConfig\<lparr>freeTimeStartedAt := Some ''2023-11-14T22:13:20Z'',
                            freeTimeRemaining := Some 120\<rparr>))"
    by (simp add: truthy_def)
  have c: "serverRemaining (exampleConfig\<lparr>freeTimeStartedAt := Some ''2023-11-14T22:13:20Z'',
                           freeTimeRemaining := Some 120\<rparr>) = 120"
    by (simp add: serverRemaining_def)
  show ?thesis
    using a
      projected_remaining_drains [OF a(1) b a(2), of 1700000060000 1700000090000]
      projected_remaining_drains [OF a(1) b a(2), of 1700000090000 1700000180000]
      projected_remaining_drains [OF a(1) b a(2), of 1700000180000 1700000190000]
    by (simp add: c)
qed

lemma exhausted_session_free_time_iff:
  assumes "config st = Some c" and "truthy (freeTimeStartedAt c)"
    and "getLocalRemainingSeconds st now = 0"
  shows "isFreeTime st now = disabledNow c now"
  using assms
  by (auto simp: isFreeTime_def getLocalRemainingSeconds_def max_def truthy_def
           split: option.splits if_splits)

lemma temporary_disable_is_free_time:
  "config st = Some c \<Longrightarrow> disabledNow c now \<Longrightarrow> isFreeTime st now"
  by (simp add: isFreeTime_def)

text \<open>
  C7. The budget rule of free time: if a free-time session is open and the projected
  remaining seconds are 0, and no temporary disable is running (the other, independent
  way into free time), then \<open>isFreeTime\<close> is false: budget exhaustion inside an open
  session blocks.
\<close>

theorem exhausted_session_not_free_time:
  assumes "config st = Some c" and "truthy (freeTimeStartedAt c)"
    and "\<not> disabledNow c now"
    and "getLocalRemainingSeconds st now = 0"
  shows "isFreeTime st now = False"
  using exhausted_session_free_time_iff [OF assms(1,2,4)] assms(3) by simp

text \<open>C7 on the session synced with 120 seconds left, 180 seconds later.\<close>

theorem exhausted_session_not_free_time_witness:
  "freeTimeStartedAt (the (config exhaustedSession)) = Some ''2023-11-14T22:13:20Z''
   \<and> freeTimeRemaining (the (config exhaustedSession)) = Some 120
   \<and> lastSyncTime exhaustedSession = Some (1700000180000 - 180000)
   \<and> getLocalRemainingSeconds exhaustedSession 1700000180000 = 0
   \<and> isFreeTime exhaustedSession 1700000180000 = False"
proof -
  have a: "config exhaustedSession
     = Some (exampleConfig\<lparr>freeTimeStartedAt := Some ''2023-11-14T22:13:20Z'',
                           freeTimeRemaining := Some 120\<rparr>)"
    by (simp add: exhaustedSession_def)
  have b: "truthy (freeTimeStartedAt
             (exampleConfig\<lparr>freeTimeStartedAt := Some ''2023-11-14T22:13:20Z'',
                            freeTimeRemaining := Some 120\<rparr>))"
    by (simp add: truthy_def)
  have c: "\<not> disabledNow (exampleConfig\<lparr>freeTimeStartedAt := Some ''2023-11-14T22:13:20Z'',
                           freeTimeRemaining := Some 120\<rparr>) 1700000180000"
    by (simp add: disabledNow_def exampleConfig_def)
  have d: "getLocalRemainingSeconds exhaustedSession 1700000180000 = 0"
    by (simp add: getLocalRemainingSeconds_def exhaustedSession_def exampleState_def
          truthy_def serverRemaining_def secondsSinceSync_def)
  have e: "lastSyncTime exhaustedSession = Some (1700000180000 - 180000)"
    by (simp add: exhaustedSession_def exampleState_def)
  show ?thesis
    using a d e exhausted_session_not_free_time [OF a b c d]
    by simp
qed

text \<open>
  C10. When the cached configuration is absent (\<open>config\<close> is \<open>null\<close>), whatever the
  identity, the last sync time and the clock are, \<open>isFreeTime\<close> is false and
  \<open>getLocalRemainingSeconds\<close> is 0.
\<close>

theorem absent_config_no_free_time:
  assumes "config st = None"
  shows "isFreeTime st now = False \<and> getLocalRemainingSeconds st now = 0"
  using assms by (simp add: isFreeTime_def getLocalRemainingSeconds_def)

text \<open>C10 on a client that still has its identity and a last sync time.\<close>

theorem absent_config_no_free_time_witness:
  "config (exampleState\<lparr>config := None\<rparr>) = None
   \<and> truthy (configId (exampleState\<lparr>config := None\<rparr>))
   \<and> lastSyncTime (exampleState\<lparr>config := None\<rparr>) = Some 1700000000000
   \<and> isFreeTime (exampleState\<lparr>config := None\<rparr>) 1700000060000 = False
   \<and> getLocalRemainingSeconds (exampleState\<lparr>config := None\<rparr>) 1700000060000 = 0"
  using absent_config_no_free_time [of "exampleState\<lparr>config := None\<rparr>" 1700000060000]
  by (simp add: exampleState_def truthy_def)

section \<open>Failed lookups and failed refreshes (C8, C9)\<close>

text \<open>
  C8. Whenever the content lookup for a watch page fails, by a rejected request or a
  response that is not OK, the secondary evaluation resolves to the reply that blocks
  with the reason \<open>Could not verify video\<close>: it does not allow and it does not throw.
  That is the reply of the \<open>checkYouTube\<close> handler whenever it gets as far as the lookup.
\<close>

theorem failed_lookup_blocks:
  assumes "lookupFailed (fetch (infoUrl st u))"
  shows "checkYouTubeLookup B fetch st u
           = Inr \<lparr>shouldCheck = True, allowed = Some False, replyTitle = None, author = None,
                  reason = Some ''Could not verify video'',
                  replyBlockedUrl = Some (blockedUrl B u)\<rparr>
         \<and> (truthy (configId st) \<and> \<not> isFreeTime st now \<and> \<not> matchesWhitelist B st u
              \<longrightarrow> checkYouTube B fetch st now u = checkYouTubeLookup B fetch st u)"
  using assms
  by (auto simp: lookupFailed_def checkYouTubeLookup_def fetchYouTubeInfo_def checkYouTube_def
           split: response.splits)

text \<open>C8 for a server that answers 503, on the paired client outside free time.\<close>

theorem failed_lookup_blocks_witness:
  "lookupFailed ((\<lambda>a. Response 503 Malformed :: videoInfo option response)
                   (infoUrl exampleState ''https://www.youtube.com/watch?v=abc''))
   \<and> checkYouTube exampleBrowser (\<lambda>a. Response 503 Malformed) exampleState 1700000060000
        ''https://www.youtube.com/watch?v=abc''
       = Inr \<lparr>shouldCheck = True, allowed = Some False, replyTitle = None, author = None,
              reason = Some ''Could not verify video'',
              replyBlockedUrl =
                Some ''chrome-extension://abcdefghijklmnopabcdefghijklmnop/pages/blocked.html?url=https%3A%2F%2Fwww.youtube.com%2Fwatch%3Fv%3Dabc''\<rparr>"
proof -
  have a: "lookupFailed ((\<lambda>a. Response 503 Malformed :: videoInfo option response)
                   (infoUrl exampleState ''https://www.youtube.com/watch?v=abc''))"
    by (simp add: lookupFailed_def ok_def)
  have b: "truthy (configId exampleState)" "\<not> isFreeTime exampleState 1700000060000"
    "\<not> matchesWhitelist exampleBrowser exampleState ''https://www.youtube.com/watch?v=abc''"
    "blockedUrl exampleBrowser ''https://www.youtube.com/watch?v=abc''
      = ''chrome-extension://abcdefghijklmnopabcdefghijklmnop/pages/blocked.html?url=https%3A%2F%2Fwww.youtube.com%2Fwatch%3Fv%3Dabc''"
    by code_simp+
  show ?thesis
    using a b failed_lookup_blocks
      [where fetch = "\<lambda>a. Response 503 Malformed" and st = exampleState
         and u = "''https://www.youtube.com/watch?v=abc''" and B = exampleBrowser
         and now = 1700000060000]
    by simp
qed

text \<open>
  C9. Whenever a refresh fails, by a rejected request, a status that is neither OK nor
  404, or an OK response whose body is not JSON, \<open>syncConfig\<close> resolves without an error
  and leaves the globals as they were: the cached snapshot, the last sync time and the
  identity. It writes nothing to storage: its only effects are the request and, when
  something was thrown, the message on the console.
\<close>

theorem failed_refresh_keeps_snapshot:
  assumes "refreshFailed (fetch (configUrl st))"
  shows "\<exists>acts. syncConfig fetch st now = Inr (st, acts)
                \<and> set acts \<subseteq> {Fetch (configUrl st), ConsoleError}"
  using assms
  by (auto simp: refreshFailed_def syncConfig_def syncConfigTry_def
           split: response.splits body.splits if_splits)

text \<open>C9 for a body that is not JSON, for the status 500 and for a rejected request.\<close>

theorem failed_refresh_keeps_snapshot_witness:
  "refreshFailed ((\<lambda>a. Response 200 Malformed :: config option response)
                    (configUrl exampleState))
   \<and> syncConfig (\<lambda>a. Response 200 Malformed) exampleState 1700000060000
       = Inr (exampleState, [Fetch ''https://api.example/config/ABCD-1234'', ConsoleError])
   \<and> refreshFailed ((\<lambda>a. Response 500 (Json None) :: config option response)
                      (configUrl exampleState))
   \<and> syncConfig (\<lambda>a. Response 500 (Json None)) exampleState 1700000060000
       = Inr (exampleState, [Fetch ''https://api.example/config/ABCD-1234''])
   \<and> refreshFailed ((\<lambda>a. NetworkError :: config option response) (configUrl exampleState))
   \<and> syncConfig (\<lambda>a. NetworkError) exampleState 1700000060000
       = Inr (exampleState, [Fetch ''https://api.example/config/ABCD-1234'', ConsoleError])"
proof -
  have a: "refreshFailed ((\<lambda>a. Response 200 Malformed :: config option response)
                            (configUrl exampleState))"
    "refreshFailed ((\<lambda>a. Response 500 (Json None) :: config option response)
                      (configUrl exampleState))"
    "refreshFailed ((\<lambda>a. NetworkError :: config option response) (configUrl exampleState))"
    by (simp_all add: refreshFailed_def ok_def)
  have u: "configUrl exampleState = ''https://api.example/config/ABCD-1234''"
    by (simp add: configUrl_def exampleState_def toString_def)
  have t: "truthy (configId exampleState)" "truthy (apiUrl exampleState)"
    by (simp_all add: truthy_def exampleState_def)
  show ?thesis
    using a
      failed_refresh_keeps_snapshot
        [where fetch = "\<lambda>a. Response 200 Malformed" and st = exampleState
           and now = 1700000060000]
      failed_refresh_keeps_snapshot
        [where fetch = "\<lambda>a. Response 500 (Json None)" and st = exampleState
           and now = 1700000060000]
      failed_refresh_keeps_snapshot
        [where fetch = "\<lambda>a. NetworkError" and st = exampleState
           and now = 1700000060000]
    by (simp add: syncConfig_def syncConfigTry_def u t ok_def)
qed

end
